theory Spec2Isabelle
  imports Main "HOL-Library.Word" "HOL-Library.Multiset" "HOL-Library.Signed_Division"
begin

unbundle bit_operations_syntax

section \<open>Constants of \<^verbatim>\<open>types_definitions.h\<close>\<close>

text \<open>
  C \<^verbatim>\<open>int\<close> values (squares, pieces, colours, counters, scores, encoded moves) are
  modelled as \<^typ>\<open>int\<close>; every value the engine computes stays far inside the 32-bit
  range.  \<^verbatim>\<open>U64\<close> is \<^typ>\<open>64 word\<close>.  C arrays are total functions from the index;
  the engine never indexes outside the declared bounds on the boards considered below.
\<close>

type_synonym U64 = "64 word"

definition CHESS_BOARD_SQUARE_NUM :: int where [simp]: "CHESS_BOARD_SQUARE_NUM = 120"
definition CHESS_MAX_GAME_MOVES :: int where [simp]: "CHESS_MAX_GAME_MOVES = 2048"
definition CHESS_MAX_SEARCH_DEPTH :: int where [simp]: "CHESS_MAX_SEARCH_DEPTH = 64"
definition CHESS_INFINITE :: int where [simp]: "CHESS_INFINITE = 30000"
definition CHESS_IS_MATE :: int where [simp]: "CHESS_IS_MATE = CHESS_INFINITE - CHESS_MAX_SEARCH_DEPTH"

definition EMPTY :: int where [simp]: "EMPTY = 0"
definition PIECE_TYPE_WHITE_PAWN :: int where [simp]: "PIECE_TYPE_WHITE_PAWN = 1"
definition PIECE_TYPE_WHITE_KNIGHT :: int where [simp]: "PIECE_TYPE_WHITE_KNIGHT = 2"
definition PIECE_TYPE_WHITE_BISHOP :: int where [simp]: "PIECE_TYPE_WHITE_BISHOP = 3"
definition PIECE_TYPE_WHITE_ROOK :: int where [simp]: "PIECE_TYPE_WHITE_ROOK = 4"
definition PIECE_TYPE_WHITE_QUEEN :: int where [simp]: "PIECE_TYPE_WHITE_QUEEN = 5"
definition PIECE_TYPE_WHITE_KING :: int where [simp]: "PIECE_TYPE_WHITE_KING = 6"
definition PIECE_TYPE_BLACK_PAWN :: int where [simp]: "PIECE_TYPE_BLACK_PAWN = 7"
definition PIECE_TYPE_BLACK_KNIGHT :: int where [simp]: "PIECE_TYPE_BLACK_KNIGHT = 8"
definition PIECE_TYPE_BLACK_BISHOP :: int where [simp]: "PIECE_TYPE_BLACK_BISHOP = 9"
definition PIECE_TYPE_BLACK_ROOK :: int where [simp]: "PIECE_TYPE_BLACK_ROOK = 10"
definition PIECE_TYPE_BLACK_QUEEN :: int where [simp]: "PIECE_TYPE_BLACK_QUEEN = 11"
definition PIECE_TYPE_BLACK_KING :: int where [simp]: "PIECE_TYPE_BLACK_KING = 12"

definition COLOR_TYPE_WHITE :: int where [simp]: "COLOR_TYPE_WHITE = 0"
definition COLOR_TYPE_BLACK :: int where [simp]: "COLOR_TYPE_BLACK = 1"
definition COLOR_TYPE_BOTH :: int where [simp]: "COLOR_TYPE_BOTH = 2"

definition BOOL_TYPE_FALSE :: int where [simp]: "BOOL_TYPE_FALSE = 0"
definition BOOL_TYPE_TRUE :: int where [simp]: "BOOL_TYPE_TRUE = 1"

definition NO_SQ :: int where [simp]: "NO_SQ = 99"
definition OFFBOARD :: int where [simp]: "OFFBOARD = 100"

definition HFNONE :: int where [simp]: "HFNONE = 0"
definition HFALPHA :: int where [simp]: "HFALPHA = 1"
definition HFBETA :: int where [simp]: "HFBETA = 2"
definition HFEXACT :: int where [simp]: "HFEXACT = 3"

definition NOMOVE :: int where [simp]: "NOMOVE = 0"

section \<open>Data structures\<close>

record Move =
  m_move :: int
  m_score :: int

record HashEntry =
  h_posKey :: U64
  h_move :: int
  h_score :: int
  h_depth :: int
  h_flags :: int

text \<open>\<^verbatim>\<open>pTable\<close> is a heap pointer: \<open>None\<close> is \<^verbatim>\<open>NULL\<close>, \<open>Some tab\<close> an allocated
  block whose entries are read as \<open>tab i\<close>.\<close>

record HashTable =
  pTable :: "(int \<Rightarrow> HashEntry) option"
  numEntries :: int
  newWrite :: int
  overWrite :: int
  hit :: int
  cut :: int

record UndoMove =
  u_move :: int
  u_castlePerm :: int
  u_enPas :: int
  u_fiftyMove :: int
  u_posKey :: U64

record ChessBoard =
  pieces :: "int \<Rightarrow> int"
  pawns :: "int \<Rightarrow> U64"
  KingSq :: "int \<Rightarrow> int"
  side :: int
  enPas :: int
  fiftyMove :: int
  ply :: int
  hisPly :: int
  castlePerm :: int
  posKey :: U64
  pieceCount :: "int \<Rightarrow> int"
  bigPce :: "int \<Rightarrow> int"
  majPce :: "int \<Rightarrow> int"
  minPce :: "int \<Rightarrow> int"
  material :: "int \<Rightarrow> int"
  history :: "int \<Rightarrow> UndoMove"
  pList :: "int \<Rightarrow> int \<Rightarrow> int"
  HashTable :: HashTable
  PvArray :: "int \<Rightarrow> int"
  searchHistory :: "int \<Rightarrow> int \<Rightarrow> int"
  searchKillers :: "int \<Rightarrow> int \<Rightarrow> int"
  capturedWhite :: "int \<Rightarrow> int"
  capturedBlack :: "int \<Rightarrow> int"
  capturedWhiteCount :: int
  capturedBlackCount :: int

section \<open>Transposition table (\<^verbatim>\<open>hashtable_pv.c\<close>)\<close>

definition HashTable_Clear :: "HashTable \<Rightarrow> HashTable" where
  "HashTable_Clear table =
     table\<lparr>pTable :=
             map_option
               (\<lambda>tab i. if 0 \<le> i \<and> i < numEntries table
                        then \<lparr>h_posKey = 0, h_move = NOMOVE, h_score = 0, h_depth = 0, h_flags = 0\<rparr>
                        else tab i)
               (pTable table),
           newWrite := 0\<rparr>"

text \<open>
  \<^verbatim>\<open>HashTable_Init\<close> (lines 66--85).  \<open>malloc\<close> stands for the C allocator: given the byte
  count (a \<^verbatim>\<open>size_t\<close>) it returns the fresh block, or \<open>None\<close> for \<^verbatim>\<open>NULL\<close>.  \<open>esz\<close> is
  \<^verbatim>\<open>sizeof(HashEntry)\<close>.  For \<open>0 \<le> MB < 2048\<close> the product \<^verbatim>\<open>0x100000 * MB\<close> does not
  overflow and the unsigned division is the floor of the quotient.  \<^verbatim>\<open>MB/2\<close> is C's
  truncating division.  The function recurses when the allocation fails; a run that never
  returns is the value \<open>None\<close>.
\<close>

partial_function (option) HashTable_Init ::
  "(U64 \<Rightarrow> (int \<Rightarrow> HashEntry) option) \<Rightarrow> nat \<Rightarrow> HashTable \<Rightarrow> int \<Rightarrow> HashTable option"
where
  "HashTable_Init malloc esz table MB =
     (let HashSize = 0x100000 * MB;
          table = table\<lparr>numEntries := HashSize div int esz\<rparr>;
          table = table\<lparr>numEntries := numEntries table - 2\<rparr>;
          table = table\<lparr>pTable := malloc (word_of_int (numEntries table) * word_of_nat esz)\<rparr>
      in if pTable table = None
         then HashTable_Init malloc esz table (MB sdiv 2)
         else Some (HashTable_Clear table))"

text \<open>
  \<^verbatim>\<open>HashTable_ProbeEntry\<close> (lines 87--133) and \<^verbatim>\<open>HashTable_StoreEntry\<close> (lines 135--159).
  \<^verbatim>\<open>posKey % numEntries\<close> is an unsigned remainder; for \<open>0 < numEntries\<close> it is
  \<open>uint posKey mod numEntries\<close>.  With \<open>numEntries \<le> 0\<close> (division trap, or an index
  outside the block) or a \<^verbatim>\<open>NULL\<close> table the C code faults: the model returns \<open>None\<close>.
  The probe returns the result flag, the two out-parameters \<^verbatim>\<open>*move\<close> and \<^verbatim>\<open>*score\<close>
  (passed in with their values before the call) and the board, whose hit counter it bumps.
\<close>

definition HashTable_ProbeEntry ::
  "ChessBoard \<Rightarrow> int \<Rightarrow> int \<Rightarrow> int \<Rightarrow> int \<Rightarrow> int \<Rightarrow> (int \<times> int \<times> int \<times> ChessBoard) option"
where
  "HashTable_ProbeEntry board move score alpha beta depth =
     (case pTable (HashTable board) of
        None \<Rightarrow> None
      | Some tab \<Rightarrow>
          if numEntries (HashTable board) \<le> 0 then None
          else
            let index = uint (posKey board) mod numEntries (HashTable board) in
            if h_posKey (tab index) = posKey board then
              let move = h_move (tab index) in
              if h_depth (tab index) \<ge> depth then
                let board = board\<lparr>HashTable := (HashTable board)\<lparr>hit := hit (HashTable board) + 1\<rparr>\<rparr>;
                    score = h_score (tab index);
                    score = (if score > CHESS_IS_MATE then score - ply board
                             else if score < - CHESS_IS_MATE then score + ply board
                             else score)
                in if h_flags (tab index) = HFALPHA then
                     (if score \<le> alpha then Some (BOOL_TYPE_TRUE, move, alpha, board)
                      else Some (BOOL_TYPE_FALSE, move, score, board))
                   else if h_flags (tab index) = HFBETA then
                     (if score \<ge> beta then Some (BOOL_TYPE_TRUE, move, beta, board)
                      else Some (BOOL_TYPE_FALSE, move, score, board))
                   else if h_flags (tab index) = HFEXACT then
                     Some (BOOL_TYPE_TRUE, move, score, board)
                   else Some (BOOL_TYPE_FALSE, move, score, board)
              else Some (BOOL_TYPE_FALSE, move, score, board)
            else Some (BOOL_TYPE_FALSE, move, score, board))"

definition HashTable_StoreEntry ::
  "ChessBoard \<Rightarrow> int \<Rightarrow> int \<Rightarrow> int \<Rightarrow> int \<Rightarrow> ChessBoard option"
where
  "HashTable_StoreEntry board move score flags depth =
     (case pTable (HashTable board) of
        None \<Rightarrow> None
      | Some tab \<Rightarrow>
          if numEntries (HashTable board) \<le> 0 then None
          else
            let index = uint (posKey board) mod numEntries (HashTable board);
                t = HashTable board;
                t = (if h_posKey (tab index) = 0 then t\<lparr>newWrite := newWrite t + 1\<rparr>
                     else t\<lparr>overWrite := overWrite t + 1\<rparr>);
                score = (if score > CHESS_IS_MATE then score + ply board
                         else if score < - CHESS_IS_MATE then score - ply board
                         else score);
                tab = tab(index := (tab index)\<lparr>h_move := move\<rparr>);
                tab = tab(index := (tab index)\<lparr>h_posKey := posKey board\<rparr>);
                tab = tab(index := (tab index)\<lparr>h_flags := flags\<rparr>);
                tab = tab(index := (tab index)\<lparr>h_score := score\<rparr>);
                tab = tab(index := (tab index)\<lparr>h_depth := depth\<rparr>)
            in Some (board\<lparr>HashTable := t\<lparr>pTable := Some tab\<rparr>\<rparr>))"


section \<open>Lookup tables (\<^verbatim>\<open>data.c\<close>, \<^verbatim>\<open>utils_init.c\<close>)\<close>

text \<open>
  The piece-property tables carry the values of \<^verbatim>\<open>data.c\<close> (there under the names
  \<^verbatim>\<open>PieceVal\<close>, \<^verbatim>\<open>PieceCol\<close>, ...), indexed by piece code 0..12.
\<close>

definition PieceBig :: "int \<Rightarrow> int" where
  "PieceBig p = [0, 0, 1, 1, 1, 1, 1, 0, 1, 1, 1, 1, 1] ! nat p"
definition PieceMaj :: "int \<Rightarrow> int" where
  "PieceMaj p = [0, 0, 0, 0, 1, 1, 1, 0, 0, 0, 1, 1, 1] ! nat p"
definition PieceMin :: "int \<Rightarrow> int" where
  "PieceMin p = [0, 0, 1, 1, 0, 0, 0, 0, 1, 1, 0, 0, 0] ! nat p"
definition g_pieceVal :: "int \<Rightarrow> int" where
  "g_pieceVal p = [0, 100, 325, 325, 550, 1000, 50000, 100, 325, 325, 550, 1000, 50000] ! nat p"
definition g_pieceCol :: "int \<Rightarrow> int" where
  "g_pieceCol p = [2, 0, 0, 0, 0, 0, 0, 1, 1, 1, 1, 1, 1] ! nat p"
definition g_piecePawn :: "int \<Rightarrow> int" where
  "g_piecePawn p = [0, 1, 0, 0, 0, 0, 0, 1, 0, 0, 0, 0, 0] ! nat p"
definition g_pieceKnight :: "int \<Rightarrow> int" where
  "g_pieceKnight p = [0, 0, 1, 0, 0, 0, 0, 0, 1, 0, 0, 0, 0] ! nat p"
definition g_pieceKing :: "int \<Rightarrow> int" where
  "g_pieceKing p = [0, 0, 0, 0, 0, 0, 1, 0, 0, 0, 0, 0, 1] ! nat p"
definition g_pieceRookQueen :: "int \<Rightarrow> int" where
  "g_pieceRookQueen p = [0, 0, 0, 0, 1, 1, 0, 0, 0, 0, 1, 1, 0] ! nat p"
definition g_pieceBishopQueen :: "int \<Rightarrow> int" where
  "g_pieceBishopQueen p = [0, 0, 0, 1, 0, 1, 0, 0, 0, 1, 0, 1, 0] ! nat p"

text \<open>
  \<^verbatim>\<open>g_filesBoard\<close>, \<^verbatim>\<open>g_ranksBoard\<close> (\<^verbatim>\<open>Init_FilesRanksBoard\<close>) and the two square
  conversion tables (\<^verbatim>\<open>Init_Square120To64\<close>) are given by what the initialisation loops
  store: square \<open>21 + file + 10 * rank\<close> for file, rank in 0..7 is on the board and has
  64-index \<open>8 * rank + file\<close>; every other entry keeps its default.
\<close>

definition on_board120 :: "int \<Rightarrow> bool" where
  "on_board120 sq \<longleftrightarrow> 21 \<le> sq \<and> sq \<le> 98 \<and> 1 \<le> sq mod 10 \<and> sq mod 10 \<le> 8"

definition g_filesBoard :: "int \<Rightarrow> int" where
  "g_filesBoard sq = (if on_board120 sq then sq mod 10 - 1 else OFFBOARD)"
definition g_ranksBoard :: "int \<Rightarrow> int" where
  "g_ranksBoard sq = (if on_board120 sq then sq div 10 - 2 else OFFBOARD)"
definition g_square120To64 :: "int \<Rightarrow> int" where
  "g_square120To64 sq = (if on_board120 sq then 8 * (sq div 10 - 2) + (sq mod 10 - 1) else 65)"
definition g_square64To120 :: "int \<Rightarrow> int" where
  "g_square64To120 sq64 = 21 + sq64 mod 8 + 10 * (sq64 div 8)"

definition FILE_RANK_TO_SQUARE :: "int \<Rightarrow> int \<Rightarrow> int" where
  "FILE_RANK_TO_SQUARE f r = (21 + f) + (r * 10)"
definition SQUARE_120_TO_64 :: "int \<Rightarrow> int" where
  "SQUARE_120_TO_64 sq120 = g_square120To64 sq120"
definition SQUARE_64_TO_120 :: "int \<Rightarrow> int" where
  "SQUARE_64_TO_120 sq64 = g_square64To120 sq64"

definition g_bitSetMask :: "int \<Rightarrow> U64" where
  "g_bitSetMask i = push_bit (nat i) 1"
definition g_bitClearMask :: "int \<Rightarrow> U64" where
  "g_bitClearMask i = NOT (g_bitSetMask i)"
definition BITBOARD_CLEAR_BIT :: "U64 \<Rightarrow> int \<Rightarrow> U64" where
  "BITBOARD_CLEAR_BIT bb squareIndex = bb AND g_bitClearMask squareIndex"
definition BITBOARD_SET_BIT :: "U64 \<Rightarrow> int \<Rightarrow> U64" where
  "BITBOARD_SET_BIT bb squareIndex = bb OR g_bitSetMask squareIndex"

text \<open>
  The Zobrist keys are drawn from \<^verbatim>\<open>rand()\<close> by \<^verbatim>\<open>Init_HashKeys\<close>; whatever was drawn
  is a parameter of every function that hashes.
\<close>

record ZobristKeys =
  g_pieceKeys :: "int \<Rightarrow> int \<Rightarrow> U64"
  g_sideKey :: U64
  g_castleKeys :: "int \<Rightarrow> U64"

subsection \<open>Validation predicates (\<^verbatim>\<open>board_validate.c\<close>)\<close>

definition SqOnBoard :: "int \<Rightarrow> int" where
  "SqOnBoard squareIndex = (if g_filesBoard squareIndex = OFFBOARD then 0 else 1)"
definition SideValid :: "int \<Rightarrow> int" where
  "SideValid s = (if s = COLOR_TYPE_WHITE \<or> s = COLOR_TYPE_BLACK then 1 else 0)"
definition PieceValidEmpty :: "int \<Rightarrow> int" where
  "PieceValidEmpty piece = (if piece \<ge> EMPTY \<and> piece \<le> PIECE_TYPE_BLACK_KING then 1 else 0)"
definition PieceValid :: "int \<Rightarrow> int" where
  "PieceValid piece = (if piece \<ge> PIECE_TYPE_WHITE_PAWN \<and> piece \<le> PIECE_TYPE_BLACK_KING then 1 else 0)"

subsection \<open>Move encoding\<close>

definition MOVE_GET_FROM_SQUARE :: "int \<Rightarrow> int" where
  "MOVE_GET_FROM_SQUARE m = m AND 0x7F"
definition MOVE_GET_TO_SQUARE :: "int \<Rightarrow> int" where
  "MOVE_GET_TO_SQUARE m = drop_bit 7 m AND 0x7F"
definition MOVE_GET_CAPTURED :: "int \<Rightarrow> int" where
  "MOVE_GET_CAPTURED m = drop_bit 14 m AND 0xF"
definition MOVE_GET_PROMOTED :: "int \<Rightarrow> int" where
  "MOVE_GET_PROMOTED m = drop_bit 20 m AND 0xF"
definition MFLAGEP :: int where "MFLAGEP = 0x40000"
definition MFLAGPS :: int where "MFLAGPS = 0x80000"
definition MFLAGCA :: int where "MFLAGCA = 0x1000000"
definition MOVE :: "int \<Rightarrow> int \<Rightarrow> int \<Rightarrow> int \<Rightarrow> int \<Rightarrow> int" where
  "MOVE f t ca pro fl = f OR push_bit 7 t OR push_bit 14 ca OR push_bit 20 pro OR fl"

definition B1 :: int where [simp]: "B1 = 22"
definition C1 :: int where [simp]: "C1 = 23"
definition D1 :: int where [simp]: "D1 = 24"
definition E1 :: int where [simp]: "E1 = 25"
definition F1 :: int where [simp]: "F1 = 26"
definition G1 :: int where [simp]: "G1 = 27"
definition B8 :: int where [simp]: "B8 = 92"
definition C8 :: int where [simp]: "C8 = 93"
definition D8 :: int where [simp]: "D8 = 94"
definition E8 :: int where [simp]: "E8 = 95"
definition F8 :: int where [simp]: "F8 = 96"
definition G8 :: int where [simp]: "G8 = 97"

definition RANK_TYPE_2 :: int where [simp]: "RANK_TYPE_2 = 1"
definition RANK_TYPE_7 :: int where [simp]: "RANK_TYPE_7 = 6"
definition RANK_TYPE_1 :: int where [simp]: "RANK_TYPE_1 = 0"
definition RANK_TYPE_8 :: int where [simp]: "RANK_TYPE_8 = 7"
definition FILE_TYPE_A :: int where [simp]: "FILE_TYPE_A = 0"

definition CASTLE_TYPE_WKCA :: int where [simp]: "CASTLE_TYPE_WKCA = 1"
definition CASTLE_TYPE_WQCA :: int where [simp]: "CASTLE_TYPE_WQCA = 2"
definition CASTLE_TYPE_BKCA :: int where [simp]: "CASTLE_TYPE_BKCA = 4"
definition CASTLE_TYPE_BQCA :: int where [simp]: "CASTLE_TYPE_BQCA = 8"

section \<open>Making and taking back moves (\<^verbatim>\<open>moves_execution.c\<close>)\<close>

definition HASH_SIDE :: "ZobristKeys \<Rightarrow> ChessBoard \<Rightarrow> ChessBoard" where
  "HASH_SIDE K board = board\<lparr>posKey := posKey board XOR g_sideKey K\<rparr>"
definition HASH_EP :: "ZobristKeys \<Rightarrow> ChessBoard \<Rightarrow> ChessBoard" where
  "HASH_EP K board = board\<lparr>posKey := posKey board XOR g_pieceKeys K EMPTY (enPas board)\<rparr>"

definition CastlePerm :: "int \<Rightarrow> int" where
  "CastlePerm sq =
    [15, 15, 15, 15, 15, 15, 15, 15, 15, 15,
     15, 15, 15, 15, 15, 15, 15, 15, 15, 15,
     15, 13, 15, 15, 15, 12, 15, 15, 14, 15,
     15, 15, 15, 15, 15, 15, 15, 15, 15, 15,
     15, 15, 15, 15, 15, 15, 15, 15, 15, 15,
     15, 15, 15, 15, 15, 15, 15, 15, 15, 15,
     15, 15, 15, 15, 15, 15, 15, 15, 15, 15,
     15, 15, 15, 15, 15, 15, 15, 15, 15, 15,
     15, 15, 15, 15, 15, 15, 15, 15, 15, 15,
     15,  7, 15, 15, 15,  3, 15, 15, 11, 15,
     15, 15, 15, 15, 15, 15, 15, 15, 15, 15,
     15, 15, 15, 15, 15, 15, 15, 15, 15, 15] ! nat sq"








subsection \<open>Attack detection (\<^verbatim>\<open>attack_detection.c\<close>)\<close>

definition KnDir :: "int list" where "KnDir = [-8, -19, -21, -12, 8, 19, 21, 12]"
definition RkDir :: "int list" where "RkDir = [-1, -10, 1, 10]"
definition BiDir :: "int list" where "BiDir = [-9, -11, 11, 9]"
definition KiDir :: "int list" where "KiDir = [-1, -10, 1, 10, -9, -11, 11, 9]"

text \<open>
  The inner \<^verbatim>\<open>while(piece != OFFBOARD)\<close> walk of the rook and bishop loops: from \<open>t_sq\<close>
  in steps of \<open>direction\<close> to the first non-empty square, which decides.  \<open>isq\<close> is the
  piece test (\<^verbatim>\<open>PIECE_IS_ROOK_QUEEN\<close> or \<^verbatim>\<open>PIECE_IS_BISHOP_QUEEN\<close>).  The mailbox has
  120 entries; on a board set up by \<^verbatim>\<open>Board_Reset\<close> its \<^verbatim>\<open>OFFBOARD\<close> frame ends every
  walk inside the array, and the model ends a walk that would leave it.  The direction
  tables hold no zero step.
\<close>

function Attack_slide :: "(int \<Rightarrow> int) \<Rightarrow> (int \<Rightarrow> int) \<Rightarrow> int \<Rightarrow> int \<Rightarrow> int \<Rightarrow> bool" where
  "Attack_slide pcs isq sd t_sq direction =
     (if t_sq < 0 \<or> 120 \<le> t_sq \<or> direction = 0 then False
      else let piece = pcs t_sq in
        if piece = OFFBOARD then False
        else if piece \<noteq> EMPTY then (isq piece \<noteq> 0 \<and> g_pieceCol piece = sd)
        else Attack_slide pcs isq sd (t_sq + direction) direction)"
  by pat_completeness auto
termination
  by (relation "measure (\<lambda>(pcs, isq, sd, t_sq, direction).
         if 0 < direction then nat (120 - t_sq) else nat (t_sq + 1))") auto

declare Attack_slide.simps [simp del]

definition Attack_IsSquareAttacked :: "int \<Rightarrow> int \<Rightarrow> ChessBoard \<Rightarrow> int" where
  "Attack_IsSquareAttacked squareIndex sd board =
     (if (if sd = COLOR_TYPE_WHITE
          then pieces board (squareIndex - 11) = PIECE_TYPE_WHITE_PAWN
             \<or> pieces board (squareIndex - 9) = PIECE_TYPE_WHITE_PAWN
          else pieces board (squareIndex + 11) = PIECE_TYPE_BLACK_PAWN
             \<or> pieces board (squareIndex + 9) = PIECE_TYPE_BLACK_PAWN)
      then BOOL_TYPE_TRUE
      else if list_ex (\<lambda>d. let piece = pieces board (squareIndex + d)
                           in piece \<noteq> OFFBOARD \<and> g_pieceKnight piece \<noteq> 0 \<and> g_pieceCol piece = sd) KnDir
      then BOOL_TYPE_TRUE
      else if list_ex (\<lambda>d. Attack_slide (pieces board) g_pieceRookQueen sd (squareIndex + d) d) RkDir
      then BOOL_TYPE_TRUE
      else if list_ex (\<lambda>d. Attack_slide (pieces board) g_pieceBishopQueen sd (squareIndex + d) d) BiDir
      then BOOL_TYPE_TRUE
      else if list_ex (\<lambda>d. let piece = pieces board (squareIndex + d)
                           in piece \<noteq> OFFBOARD \<and> g_pieceKing piece \<noteq> 0 \<and> g_pieceCol piece = sd) KiDir
      then BOOL_TYPE_TRUE
      else BOOL_TYPE_FALSE)"

subsection \<open>\<^verbatim>\<open>Move_Make\<close> and \<^verbatim>\<open>Move_Take\<close>\<close>




definition MakeNullMove :: "ZobristKeys \<Rightarrow> ChessBoard \<Rightarrow> ChessBoard" where
  "MakeNullMove K board =
     (let board = board\<lparr>ply := ply board + 1\<rparr>;
          board = board\<lparr>history := (history board)
                    (hisPly board := (history board (hisPly board))\<lparr>u_posKey := posKey board\<rparr>)\<rparr>;
          board = (if enPas board \<noteq> NO_SQ then HASH_EP K board else board);
          board = board\<lparr>history := (history board)
                    (hisPly board := (history board (hisPly board))\<lparr>u_move := NOMOVE\<rparr>)\<rparr>;
          board = board\<lparr>history := (history board)
                    (hisPly board := (history board (hisPly board))\<lparr>u_fiftyMove := fiftyMove board\<rparr>)\<rparr>;
          board = board\<lparr>history := (history board)
                    (hisPly board := (history board (hisPly board))\<lparr>u_enPas := enPas board\<rparr>)\<rparr>;
          board = board\<lparr>history := (history board)
                    (hisPly board := (history board (hisPly board))\<lparr>u_castlePerm := castlePerm board\<rparr>)\<rparr>;
          board = board\<lparr>enPas := NO_SQ\<rparr>;
          board = board\<lparr>side := side board XOR 1\<rparr>;
          board = board\<lparr>hisPly := hisPly board + 1\<rparr>;
          board = HASH_SIDE K board
      in board)"

definition TakeNullMove :: "ZobristKeys \<Rightarrow> ChessBoard \<Rightarrow> ChessBoard" where
  "TakeNullMove K board =
     (let board = board\<lparr>hisPly := hisPly board - 1\<rparr>;
          board = board\<lparr>ply := ply board - 1\<rparr>;
          board = (if enPas board \<noteq> NO_SQ then HASH_EP K board else board);
          board = board\<lparr>castlePerm := u_castlePerm (history board (hisPly board))\<rparr>;
          board = board\<lparr>fiftyMove := u_fiftyMove (history board (hisPly board))\<rparr>;
          board = board\<lparr>enPas := u_enPas (history board (hisPly board))\<rparr>;
          board = (if enPas board \<noteq> NO_SQ then HASH_EP K board else board);
          board = board\<lparr>side := side board XOR 1\<rparr>;
          board = HASH_SIDE K board
      in board)"

section \<open>Position key and board set-up (\<^verbatim>\<open>board_hashkeys.c\<close>, \<^verbatim>\<open>board_representation.c\<close>)\<close>

text \<open>The body of the piece loop of \<^verbatim>\<open>Board_GeneratePositionKey\<close> (lines 31--37).\<close>

definition PositionKey_square :: "ZobristKeys \<Rightarrow> (int \<Rightarrow> int) \<Rightarrow> int \<Rightarrow> U64 \<Rightarrow> U64" where
  "PositionKey_square K pcs squareIndex finalKey =
     (let piece = pcs squareIndex in
      if piece \<noteq> NO_SQ \<and> piece \<noteq> EMPTY \<and> piece \<noteq> OFFBOARD
      then finalKey XOR g_pieceKeys K piece squareIndex else finalKey)"

definition Board_GeneratePositionKey :: "ZobristKeys \<Rightarrow> ChessBoard \<Rightarrow> U64" where
  "Board_GeneratePositionKey K board =
     (let finalKey = fold (PositionKey_square K (pieces board)) [0 .. CHESS_BOARD_SQUARE_NUM - 1] 0;
          finalKey = (if side board = COLOR_TYPE_WHITE then finalKey XOR g_sideKey K else finalKey);
          finalKey = (if enPas board \<noteq> NO_SQ
                      then finalKey XOR g_pieceKeys K EMPTY (enPas board) else finalKey)
      in finalKey XOR g_castleKeys K (castlePerm board))"

text \<open>The two mailbox loops of \<^verbatim>\<open>Board_Reset\<close> (lines 276--282).\<close>

definition Board_Reset_mailbox :: "(int \<Rightarrow> int) \<Rightarrow> (int \<Rightarrow> int)" where
  "Board_Reset_mailbox p =
     fold (\<lambda>index p. p(SQUARE_64_TO_120 index := EMPTY)) [0 .. 63]
       (fold (\<lambda>index p. p(index := OFFBOARD)) [0 .. 119] p)"

definition Board_Reset :: "ChessBoard \<Rightarrow> ChessBoard" where
  "Board_Reset board =
     (let board = board\<lparr>pieces := Board_Reset_mailbox (pieces board)\<rparr>;
          board = fold (\<lambda>index board.
                    board\<lparr>bigPce := (bigPce board)(index := 0), majPce := (majPce board)(index := 0),
                          minPce := (minPce board)(index := 0), material := (material board)(index := 0)\<rparr>)
                  [0 .. 1] board;
          board = board\<lparr>pawns := fold (\<lambda>index p. p(index := 0)) [0 .. 2] (pawns board)\<rparr>;
          board = board\<lparr>pieceCount := fold (\<lambda>index p. p(index := 0)) [0 .. 12] (pieceCount board)\<rparr>;
          board = board\<lparr>KingSq := (KingSq board)(COLOR_TYPE_BLACK := NO_SQ)\<rparr>;
          board = board\<lparr>KingSq := (KingSq board)(COLOR_TYPE_WHITE := KingSq board COLOR_TYPE_BLACK)\<rparr>;
          board = board\<lparr>side := COLOR_TYPE_BOTH, enPas := NO_SQ, fiftyMove := 0, ply := 0, hisPly := 0,
                        castlePerm := 0, posKey := 0, capturedWhiteCount := 0, capturedBlackCount := 0\<rparr>
      in fold (\<lambda>index board.
                 board\<lparr>capturedWhite := (capturedWhite board)(index := EMPTY),
                       capturedBlack := (capturedBlack board)(index := EMPTY)\<rparr>)
              [0 .. 15] board)"

text \<open>The body of the loop of \<^verbatim>\<open>Board_UpdateListsMaterial\<close> for one index, and the loop.\<close>

definition Board_UpdateListsMaterial_square :: "int \<Rightarrow> ChessBoard \<Rightarrow> ChessBoard" where
  "Board_UpdateListsMaterial_square index board =
     (let squareIndex = index;
          piece = pieces board index
      in if piece \<noteq> OFFBOARD \<and> piece \<noteq> EMPTY then
           (let colour = g_pieceCol piece;
                board = (if PieceBig piece = BOOL_TYPE_TRUE
                         then board\<lparr>bigPce := (bigPce board)(colour := bigPce board colour + 1)\<rparr> else board);
                board = (if PieceMin piece = BOOL_TYPE_TRUE
                         then board\<lparr>minPce := (minPce board)(colour := minPce board colour + 1)\<rparr> else board);
                board = (if PieceMaj piece = BOOL_TYPE_TRUE
                         then board\<lparr>majPce := (majPce board)(colour := majPce board colour + 1)\<rparr> else board);
                board = board\<lparr>material := (material board)(colour := material board colour + g_pieceVal piece)\<rparr>;
                board = board\<lparr>pList := (pList board)
                          (piece := (pList board piece)(pieceCount board piece := squareIndex))\<rparr>;
                board = board\<lparr>pieceCount := (pieceCount board)(piece := pieceCount board piece + 1)\<rparr>;
                board = (if piece = PIECE_TYPE_WHITE_KING
                         then board\<lparr>KingSq := (KingSq board)(COLOR_TYPE_WHITE := squareIndex)\<rparr> else board);
                board = (if piece = PIECE_TYPE_BLACK_KING
                         then board\<lparr>KingSq := (KingSq board)(COLOR_TYPE_BLACK := squareIndex)\<rparr> else board)
            in if piece = PIECE_TYPE_WHITE_PAWN then
                 (let board = board\<lparr>pawns := (pawns board)(COLOR_TYPE_WHITE :=
                         BITBOARD_SET_BIT (pawns board COLOR_TYPE_WHITE) (SQUARE_120_TO_64 squareIndex))\<rparr>
                  in board\<lparr>pawns := (pawns board)(COLOR_TYPE_BOTH :=
                         BITBOARD_SET_BIT (pawns board COLOR_TYPE_BOTH) (SQUARE_120_TO_64 squareIndex))\<rparr>)
               else if piece = PIECE_TYPE_BLACK_PAWN then
                 (let board = board\<lparr>pawns := (pawns board)(COLOR_TYPE_BLACK :=
                         BITBOARD_SET_BIT (pawns board COLOR_TYPE_BLACK) (SQUARE_120_TO_64 squareIndex))\<rparr>
                  in board\<lparr>pawns := (pawns board)(COLOR_TYPE_BOTH :=
                         BITBOARD_SET_BIT (pawns board COLOR_TYPE_BOTH) (SQUARE_120_TO_64 squareIndex))\<rparr>)
               else board)
         else board)"

definition Board_UpdateListsMaterial :: "ChessBoard \<Rightarrow> ChessBoard" where
  "Board_UpdateListsMaterial board =
     fold Board_UpdateListsMaterial_square [0 .. CHESS_BOARD_SQUARE_NUM - 1] board"

text \<open>
  \<^verbatim>\<open>Board_ParseFromFEN\<close> (lines 167--270).  The C string is the list of its characters
  before the terminating NUL.  \<open>c_at s i\<close> is the read \<^verbatim>\<open>s[i]\<close>: a character of the string,
  the NUL at its end, or \<open>None\<close> for a read past the terminator.  A read outside the
  string or outside \<^verbatim>\<open>g_square64To120[64]\<close> is undefined behaviour in C; the model then
  yields \<open>None\<close> for the whole call.
\<close>

definition c_at :: "string \<Rightarrow> nat \<Rightarrow> char option" where
  "c_at s i = (if i < length s then Some (s ! i)
               else if i = length s then Some (CHR 0x00) else None)"

datatype placement = Placed string "int \<Rightarrow> int" | Fen_error "int \<Rightarrow> int" | Fen_fault

text \<open>The \<^verbatim>\<open>for\<close> loop of lines 222--229: \<^verbatim>\<open>count\<close> squares of one rank.\<close>

fun FEN_fill :: "nat \<Rightarrow> int \<Rightarrow> int \<Rightarrow> int \<Rightarrow> (int \<Rightarrow> int) \<Rightarrow> (int \<times> (int \<Rightarrow> int)) option" where
  "FEN_fill 0 piece rank file pcs = Some (file, pcs)"
| "FEN_fill (Suc cnt) piece rank file pcs =
     (let sq64 = rank * 8 + file in
      if sq64 < 0 \<or> 64 \<le> sq64 then None
      else let sq120 = SQUARE_64_TO_120 sq64;
               pcs = (if piece \<noteq> EMPTY then pcs(sq120 := piece) else pcs)
           in FEN_fill cnt piece rank (file + 1) pcs)"

definition FEN_piece :: "char \<Rightarrow> (int \<times> nat) option" where
  "FEN_piece c =
     (if c = CHR ''p'' then Some (PIECE_TYPE_BLACK_PAWN, 1)
      else if c = CHR ''r'' then Some (PIECE_TYPE_BLACK_ROOK, 1)
      else if c = CHR ''n'' then Some (PIECE_TYPE_BLACK_KNIGHT, 1)
      else if c = CHR ''b'' then Some (PIECE_TYPE_BLACK_BISHOP, 1)
      else if c = CHR ''k'' then Some (PIECE_TYPE_BLACK_KING, 1)
      else if c = CHR ''q'' then Some (PIECE_TYPE_BLACK_QUEEN, 1)
      else if c = CHR ''P'' then Some (PIECE_TYPE_WHITE_PAWN, 1)
      else if c = CHR ''R'' then Some (PIECE_TYPE_WHITE_ROOK, 1)
      else if c = CHR ''N'' then Some (PIECE_TYPE_WHITE_KNIGHT, 1)
      else if c = CHR ''B'' then Some (PIECE_TYPE_WHITE_BISHOP, 1)
      else if c = CHR ''K'' then Some (PIECE_TYPE_WHITE_KING, 1)
      else if c = CHR ''Q'' then Some (PIECE_TYPE_WHITE_QUEEN, 1)
      else if c \<in> set ''12345678'' then Some (EMPTY, of_char c - of_char (CHR ''0''))
      else None)"

text \<open>
  The \<^verbatim>\<open>while\<close> loop of lines 182--231 over the piece-placement field.  \<open>FEN_char\<close> is
  one pass through its \<^verbatim>\<open>switch\<close> and \<^verbatim>\<open>for\<close>: the new rank, file and mailbox, or the
  \<^verbatim>\<open>default\<close> branch (\<open>Char_error\<close>, the \<^verbatim>\<open>return -1\<close>), or a read outside the table.
\<close>

datatype fen_char = Char_next int int "int \<Rightarrow> int" | Char_error | Char_fault

definition FEN_char :: "char \<Rightarrow> int \<Rightarrow> int \<Rightarrow> (int \<Rightarrow> int) \<Rightarrow> fen_char" where
  "FEN_char c rank file pcs =
     (if c = CHR ''/'' \<or> c = CHR '' '' then Char_next (rank - 1) FILE_TYPE_A pcs
      else case FEN_piece c of
             None \<Rightarrow> Char_error
           | Some (piece, cnt) \<Rightarrow>
               (case FEN_fill cnt piece rank file pcs of
                  None \<Rightarrow> Char_fault
                | Some (file, pcs) \<Rightarrow> Char_next rank file pcs))"

fun FEN_placement :: "string \<Rightarrow> int \<Rightarrow> int \<Rightarrow> (int \<Rightarrow> int) \<Rightarrow> placement" where
  "FEN_placement [] rank file pcs = Placed [] pcs"
| "FEN_placement (c # fen) rank file pcs =
     (if \<not> rank \<ge> RANK_TYPE_1 then Placed (c # fen) pcs
      else case FEN_char c rank file pcs of
             Char_next rank file pcs \<Rightarrow> FEN_placement fen rank file pcs
           | Char_error \<Rightarrow> Fen_error pcs
           | Char_fault \<Rightarrow> Fen_fault)"

text \<open>The castling-rights loop of lines 238--250; \<open>k\<close> is the offset of \<^verbatim>\<open>fen\<close>, and
  \<open>FEN_castle_char\<close> its \<^verbatim>\<open>switch\<close>.\<close>

definition FEN_castle_char :: "char \<Rightarrow> int \<Rightarrow> int" where
  "FEN_castle_char c perm =
     (if c = CHR ''K'' then perm OR CASTLE_TYPE_WKCA
      else if c = CHR ''Q'' then perm OR CASTLE_TYPE_WQCA
      else if c = CHR ''k'' then perm OR CASTLE_TYPE_BKCA
      else if c = CHR ''q'' then perm OR CASTLE_TYPE_BQCA
      else perm)"

fun FEN_castle :: "nat \<Rightarrow> string \<Rightarrow> nat \<Rightarrow> int \<Rightarrow> (nat \<times> int) option" where
  "FEN_castle 0 s k perm = Some (k, perm)"
| "FEN_castle (Suc i) s k perm =
     (case c_at s k of
        None \<Rightarrow> None
      | Some c \<Rightarrow>
          if c = CHR '' '' then Some (k, perm)
          else FEN_castle i s (k + 1) (FEN_castle_char c perm))"

definition Board_ParseFromFEN :: "ZobristKeys \<Rightarrow> string \<Rightarrow> ChessBoard \<Rightarrow> (int \<times> ChessBoard) option" where
  "Board_ParseFromFEN K fen board =
     (let board = Board_Reset board in
      case FEN_placement fen RANK_TYPE_8 FILE_TYPE_A (pieces board) of
        Fen_fault \<Rightarrow> None
      | Fen_error pcs \<Rightarrow> Some (- 1, board\<lparr>pieces := pcs\<rparr>)
      | Placed fen pcs \<Rightarrow>
          (let board = board\<lparr>pieces := pcs\<rparr> in
           case c_at fen 0 of
             None \<Rightarrow> None
           | Some c \<Rightarrow>
               (let board = board\<lparr>side := (if c = CHR ''w'' then COLOR_TYPE_WHITE else COLOR_TYPE_BLACK)\<rparr> in
                case FEN_castle 4 fen 2 (castlePerm board) of
                  None \<Rightarrow> None
                | Some (k, perm) \<Rightarrow>
                    (let board = board\<lparr>castlePerm := perm\<rparr>;
                         k = k + 1
                     in case c_at fen k of
                          None \<Rightarrow> None
                        | Some c0 \<Rightarrow>
                            if c0 \<noteq> CHR ''-'' then
                              (case c_at fen (k + 1) of
                                 None \<Rightarrow> None
                               | Some c1 \<Rightarrow>
                                   (let file = of_char c0 - of_char (CHR ''a'');
                                        rank = of_char c1 - of_char (CHR ''1'');
                                        board = board\<lparr>enPas := FILE_RANK_TO_SQUARE file rank\<rparr>;
                                        board = board\<lparr>posKey := Board_GeneratePositionKey K board\<rparr>
                                    in Some (0, Board_UpdateListsMaterial board)))
                            else
                              (let board = board\<lparr>posKey := Board_GeneratePositionKey K board\<rparr>
                               in Some (0, Board_UpdateListsMaterial board))))))"

section \<open>Move generation (\<^verbatim>\<open>moves_generation.c\<close>)\<close>

text \<open>A \<^verbatim>\<open>MoveList\<close> is the list of its first \<^verbatim>\<open>count\<close> entries.\<close>

definition SQOFFBOARD :: "int \<Rightarrow> bool" where
  "SQOFFBOARD squareIndex \<longleftrightarrow> g_filesBoard squareIndex = OFFBOARD"

definition LoopSlidePce :: "int list" where
  "LoopSlidePce = [PIECE_TYPE_WHITE_BISHOP, PIECE_TYPE_WHITE_ROOK, PIECE_TYPE_WHITE_QUEEN, 0,
                   PIECE_TYPE_BLACK_BISHOP, PIECE_TYPE_BLACK_ROOK, PIECE_TYPE_BLACK_QUEEN, 0]"
definition LoopNonSlidePce :: "int list" where
  "LoopNonSlidePce = [PIECE_TYPE_WHITE_KNIGHT, PIECE_TYPE_WHITE_KING, 0,
                      PIECE_TYPE_BLACK_KNIGHT, PIECE_TYPE_BLACK_KING, 0]"
definition LoopSlideIndex :: "int \<Rightarrow> int" where "LoopSlideIndex s = [0, 4] ! nat s"
definition LoopNonSlideIndex :: "int \<Rightarrow> int" where "LoopNonSlideIndex s = [0, 3] ! nat s"

definition PceDir :: "int \<Rightarrow> int \<Rightarrow> int" where
  "PceDir p i =
     [[0, 0, 0, 0, 0, 0, 0, 0],
      [0, 0, 0, 0, 0, 0, 0, 0],
      [-8, -19, -21, -12, 8, 19, 21, 12],
      [-9, -11, 11, 9, 0, 0, 0, 0],
      [-1, -10, 1, 10, 0, 0, 0, 0],
      [-1, -10, 1, 10, -9, -11, 11, 9],
      [-1, -10, 1, 10, -9, -11, 11, 9],
      [0, 0, 0, 0, 0, 0, 0, 0],
      [-8, -19, -21, -12, 8, 19, 21, 12],
      [-9, -11, 11, 9, 0, 0, 0, 0],
      [-1, -10, 1, 10, 0, 0, 0, 0],
      [-1, -10, 1, 10, -9, -11, 11, 9],
      [-1, -10, 1, 10, -9, -11, 11, 9]] ! nat p ! nat i"

definition NumDir :: "int \<Rightarrow> int" where
  "NumDir p = [0, 0, 8, 4, 4, 8, 8, 0, 8, 4, 4, 8, 8] ! nat p"

definition VictimScore :: "int \<Rightarrow> int" where
  "VictimScore p = [0, 100, 200, 300, 400, 500, 600, 100, 200, 300, 400, 500, 600] ! nat p"

text \<open>\<^verbatim>\<open>MvvLvaScores\<close> as \<^verbatim>\<open>Init_MvvLva\<close> fills it; the other entries of the static table
  stay zero.  \<^verbatim>\<open>VictimScore[Attacker] / 100\<close> divides a non-negative number.\<close>

definition MvvLvaScores :: "int \<Rightarrow> int \<Rightarrow> int" where
  "MvvLvaScores Victim Attacker =
     (if PIECE_TYPE_WHITE_PAWN \<le> Attacker \<and> Attacker \<le> PIECE_TYPE_BLACK_KING
         \<and> PIECE_TYPE_WHITE_PAWN \<le> Victim \<and> Victim \<le> PIECE_TYPE_BLACK_KING
      then VictimScore Victim + 6 - (VictimScore Attacker div 100) else 0)"

definition AddQuietMove :: "ChessBoard \<Rightarrow> int \<Rightarrow> Move list \<Rightarrow> Move list" where
  "AddQuietMove board mv list =
     list @ [\<lparr>m_move = mv,
              m_score = (if searchKillers board 0 (ply board) = mv then 900000
                         else if searchKillers board 1 (ply board) = mv then 800000
                         else searchHistory board (pieces board (MOVE_GET_FROM_SQUARE mv))
                                (MOVE_GET_TO_SQUARE mv))\<rparr>]"

definition AddCaptureMove :: "ChessBoard \<Rightarrow> int \<Rightarrow> Move list \<Rightarrow> Move list" where
  "AddCaptureMove board mv list =
     list @ [\<lparr>m_move = mv,
              m_score = MvvLvaScores (MOVE_GET_CAPTURED mv) (pieces board (MOVE_GET_FROM_SQUARE mv))
                        + 1000000\<rparr>]"

definition AddEnPassantMove :: "ChessBoard \<Rightarrow> int \<Rightarrow> Move list \<Rightarrow> Move list" where
  "AddEnPassantMove board mv list = list @ [\<lparr>m_move = mv, m_score = 105 + 1000000\<rparr>]"

definition AddWhitePawnCapMove :: "ChessBoard \<Rightarrow> int \<Rightarrow> int \<Rightarrow> int \<Rightarrow> Move list \<Rightarrow> Move list" where
  "AddWhitePawnCapMove board from to capturedPiece list =
     (if g_ranksBoard from = RANK_TYPE_7 then
        (let list = AddCaptureMove board (MOVE from to capturedPiece PIECE_TYPE_WHITE_QUEEN 0) list;
             list = AddCaptureMove board (MOVE from to capturedPiece PIECE_TYPE_WHITE_ROOK 0) list;
             list = AddCaptureMove board (MOVE from to capturedPiece PIECE_TYPE_WHITE_BISHOP 0) list
         in AddCaptureMove board (MOVE from to capturedPiece PIECE_TYPE_WHITE_KNIGHT 0) list)
      else AddCaptureMove board (MOVE from to capturedPiece EMPTY 0) list)"

definition AddWhitePawnMove :: "ChessBoard \<Rightarrow> int \<Rightarrow> int \<Rightarrow> Move list \<Rightarrow> Move list" where
  "AddWhitePawnMove board from to list =
     (if g_ranksBoard from = RANK_TYPE_7 then
        (let list = AddQuietMove board (MOVE from to EMPTY PIECE_TYPE_WHITE_QUEEN 0) list;
             list = AddQuietMove board (MOVE from to EMPTY PIECE_TYPE_WHITE_ROOK 0) list;
             list = AddQuietMove board (MOVE from to EMPTY PIECE_TYPE_WHITE_BISHOP 0) list
         in AddQuietMove board (MOVE from to EMPTY PIECE_TYPE_WHITE_KNIGHT 0) list)
      else AddQuietMove board (MOVE from to EMPTY EMPTY 0) list)"

definition AddBlackPawnCapMove :: "ChessBoard \<Rightarrow> int \<Rightarrow> int \<Rightarrow> int \<Rightarrow> Move list \<Rightarrow> Move list" where
  "AddBlackPawnCapMove board from to capturedPiece list =
     (if g_ranksBoard from = RANK_TYPE_2 then
        (let list = AddCaptureMove board (MOVE from to capturedPiece PIECE_TYPE_BLACK_QUEEN 0) list;
             list = AddCaptureMove board (MOVE from to capturedPiece PIECE_TYPE_BLACK_ROOK 0) list;
             list = AddCaptureMove board (MOVE from to capturedPiece PIECE_TYPE_BLACK_BISHOP 0) list
         in AddCaptureMove board (MOVE from to capturedPiece PIECE_TYPE_BLACK_KNIGHT 0) list)
      else AddCaptureMove board (MOVE from to capturedPiece EMPTY 0) list)"

definition AddBlackPawnMove :: "ChessBoard \<Rightarrow> int \<Rightarrow> int \<Rightarrow> Move list \<Rightarrow> Move list" where
  "AddBlackPawnMove board from to list =
     (if g_ranksBoard from = RANK_TYPE_2 then
        (let list = AddQuietMove board (MOVE from to EMPTY PIECE_TYPE_BLACK_QUEEN 0) list;
             list = AddQuietMove board (MOVE from to EMPTY PIECE_TYPE_BLACK_ROOK 0) list;
             list = AddQuietMove board (MOVE from to EMPTY PIECE_TYPE_BLACK_BISHOP 0) list
         in AddQuietMove board (MOVE from to EMPTY PIECE_TYPE_BLACK_KNIGHT 0) list)
      else AddQuietMove board (MOVE from to EMPTY EMPTY 0) list)"

text \<open>The squares \<^verbatim>\<open>pList[piece][0 .. pieceCount[piece] - 1]\<close>, in list order.\<close>

definition pList_squares :: "ChessBoard \<Rightarrow> int \<Rightarrow> int list" where
  "pList_squares board piece = map (pList board piece) [0 .. pieceCount board piece - 1]"

text \<open>One pass of the white and of the black pawn loop (lines 227--253, 273--299).\<close>

definition Gen_white_pawn :: "ChessBoard \<Rightarrow> int \<Rightarrow> Move list \<Rightarrow> Move list" where
  "Gen_white_pawn board squareIndex list =
     (let list =
            (if pieces board (squareIndex + 10) = EMPTY then
               (let list = AddWhitePawnMove board squareIndex (squareIndex + 10) list in
                if g_ranksBoard squareIndex = RANK_TYPE_2 \<and> pieces board (squareIndex + 20) = EMPTY
                then AddQuietMove board (MOVE squareIndex (squareIndex + 20) EMPTY EMPTY MFLAGPS) list
                else list)
             else list);
          list =
            (if \<not> SQOFFBOARD (squareIndex + 9)
                \<and> g_pieceCol (pieces board (squareIndex + 9)) = COLOR_TYPE_BLACK
             then AddWhitePawnCapMove board squareIndex (squareIndex + 9) (pieces board (squareIndex + 9)) list
             else list);
          list =
            (if \<not> SQOFFBOARD (squareIndex + 11)
                \<and> g_pieceCol (pieces board (squareIndex + 11)) = COLOR_TYPE_BLACK
             then AddWhitePawnCapMove board squareIndex (squareIndex + 11) (pieces board (squareIndex + 11)) list
             else list)
      in if enPas board \<noteq> NO_SQ then
           (let list = (if squareIndex + 9 = enPas board
                        then AddEnPassantMove board (MOVE squareIndex (squareIndex + 9) EMPTY EMPTY MFLAGEP) list
                        else list)
            in if squareIndex + 11 = enPas board
               then AddEnPassantMove board (MOVE squareIndex (squareIndex + 11) EMPTY EMPTY MFLAGEP) list
               else list)
         else list)"

definition Gen_black_pawn :: "ChessBoard \<Rightarrow> int \<Rightarrow> Move list \<Rightarrow> Move list" where
  "Gen_black_pawn board squareIndex list =
     (let list =
            (if pieces board (squareIndex - 10) = EMPTY then
               (let list = AddBlackPawnMove board squareIndex (squareIndex - 10) list in
                if g_ranksBoard squareIndex = RANK_TYPE_7 \<and> pieces board (squareIndex - 20) = EMPTY
                then AddQuietMove board (MOVE squareIndex (squareIndex - 20) EMPTY EMPTY MFLAGPS) list
                else list)
             else list);
          list =
            (if \<not> SQOFFBOARD (squareIndex - 9)
                \<and> g_pieceCol (pieces board (squareIndex - 9)) = COLOR_TYPE_WHITE
             then AddBlackPawnCapMove board squareIndex (squareIndex - 9) (pieces board (squareIndex - 9)) list
             else list);
          list =
            (if \<not> SQOFFBOARD (squareIndex - 11)
                \<and> g_pieceCol (pieces board (squareIndex - 11)) = COLOR_TYPE_WHITE
             then AddBlackPawnCapMove board squareIndex (squareIndex - 11) (pieces board (squareIndex - 11)) list
             else list)
      in if enPas board \<noteq> NO_SQ then
           (let list = (if squareIndex - 9 = enPas board
                        then AddEnPassantMove board (MOVE squareIndex (squareIndex - 9) EMPTY EMPTY MFLAGEP) list
                        else list)
            in if squareIndex - 11 = enPas board
               then AddEnPassantMove board (MOVE squareIndex (squareIndex - 11) EMPTY EMPTY MFLAGEP) list
               else list)
         else list)"

definition Gen_white_castle :: "ChessBoard \<Rightarrow> Move list \<Rightarrow> Move list" where
  "Gen_white_castle board list =
     (let list =
            (if castlePerm board AND CASTLE_TYPE_WKCA \<noteq> 0
                \<and> pieces board F1 = EMPTY \<and> pieces board G1 = EMPTY
                \<and> Attack_IsSquareAttacked E1 COLOR_TYPE_BLACK board = 0
                \<and> Attack_IsSquareAttacked F1 COLOR_TYPE_BLACK board = 0
             then AddQuietMove board (MOVE E1 G1 EMPTY EMPTY MFLAGCA) list else list)
      in if castlePerm board AND CASTLE_TYPE_WQCA \<noteq> 0
            \<and> pieces board D1 = EMPTY \<and> pieces board C1 = EMPTY \<and> pieces board B1 = EMPTY
            \<and> Attack_IsSquareAttacked E1 COLOR_TYPE_BLACK board = 0
            \<and> Attack_IsSquareAttacked D1 COLOR_TYPE_BLACK board = 0
         then AddQuietMove board (MOVE E1 C1 EMPTY EMPTY MFLAGCA) list else list)"

definition Gen_black_castle :: "ChessBoard \<Rightarrow> Move list \<Rightarrow> Move list" where
  "Gen_black_castle board list =
     (let list =
            (if castlePerm board AND CASTLE_TYPE_BKCA \<noteq> 0
                \<and> pieces board F8 = EMPTY \<and> pieces board G8 = EMPTY
                \<and> Attack_IsSquareAttacked E8 COLOR_TYPE_WHITE board = 0
                \<and> Attack_IsSquareAttacked F8 COLOR_TYPE_WHITE board = 0
             then AddQuietMove board (MOVE E8 G8 EMPTY EMPTY MFLAGCA) list else list)
      in if castlePerm board AND CASTLE_TYPE_BQCA \<noteq> 0
            \<and> pieces board D8 = EMPTY \<and> pieces board C8 = EMPTY \<and> pieces board B8 = EMPTY
            \<and> Attack_IsSquareAttacked E8 COLOR_TYPE_WHITE board = 0
            \<and> Attack_IsSquareAttacked D8 COLOR_TYPE_WHITE board = 0
         then AddQuietMove board (MOVE E8 C8 EMPTY EMPTY MFLAGCA) list else list)"

text \<open>
  The \<^verbatim>\<open>while(!SQOFFBOARD(t_sq))\<close> walk of a sliding piece (lines 333--343).  Only
  squares 21..98 are on the board, so the walk ends; \<^verbatim>\<open>NumDir\<close> keeps the zero entries of
  \<^verbatim>\<open>PceDir\<close> out of the loop.
\<close>

definition Gen_slide_hit :: "ChessBoard \<Rightarrow> int \<Rightarrow> int \<Rightarrow> int \<Rightarrow> Move list \<Rightarrow> Move list" where
  "Gen_slide_hit board sd squareIndex t_sq list =
     (if g_pieceCol (pieces board t_sq) = sd XOR 1
      then AddCaptureMove board (MOVE squareIndex t_sq (pieces board t_sq) EMPTY 0) list
      else list)"

function Gen_slide :: "ChessBoard \<Rightarrow> int \<Rightarrow> int \<Rightarrow> int \<Rightarrow> int \<Rightarrow> Move list \<Rightarrow> Move list" where
  "Gen_slide board sd squareIndex direction t_sq list =
     (if SQOFFBOARD t_sq \<or> direction = 0 then list
      else if pieces board t_sq \<noteq> EMPTY then Gen_slide_hit board sd squareIndex t_sq list
      else Gen_slide board sd squareIndex direction (t_sq + direction)
             (AddQuietMove board (MOVE squareIndex t_sq EMPTY EMPTY 0) list))"
  by pat_completeness auto
termination
  by (relation "measure (\<lambda>(board, sd, squareIndex, direction, t_sq, list).
         if 0 < direction then nat (99 - t_sq) else nat t_sq)")
     (auto simp: SQOFFBOARD_def g_filesBoard_def on_board120_def split: if_splits)

declare Gen_slide.simps [simp del]

definition Gen_nonslide :: "ChessBoard \<Rightarrow> int \<Rightarrow> int \<Rightarrow> int \<Rightarrow> Move list \<Rightarrow> Move list" where
  "Gen_nonslide board sd squareIndex direction list =
     (let t_sq = squareIndex + direction in
      if SQOFFBOARD t_sq then list
      else if pieces board t_sq \<noteq> EMPTY then Gen_slide_hit board sd squareIndex t_sq list
      else AddQuietMove board (MOVE squareIndex t_sq EMPTY EMPTY 0) list)"

text \<open>The pieces a \<^verbatim>\<open>piece = Loop...Pce[pceIndex++]\<close> loop visits: the table entries
  from the start index up to the first 0.\<close>

definition Loop_pieces :: "int list \<Rightarrow> int \<Rightarrow> int list" where
  "Loop_pieces tbl start = takeWhile (\<lambda>piece. piece \<noteq> 0) (drop (nat start) tbl)"

definition Move_GenerateAll :: "ChessBoard \<Rightarrow> Move list" where
  "Move_GenerateAll board =
     (let list = [];
          sd = side board;
          list =
            (if sd = COLOR_TYPE_WHITE then
               Gen_white_castle board
                 (fold (Gen_white_pawn board) (pList_squares board PIECE_TYPE_WHITE_PAWN) list)
             else
               Gen_black_castle board
                 (fold (Gen_black_pawn board) (pList_squares board PIECE_TYPE_BLACK_PAWN) list));
          list =
            fold (\<lambda>piece.
                    fold (\<lambda>squareIndex.
                            fold (\<lambda>index list.
                                    let direction = PceDir piece index
                                    in Gen_slide board sd squareIndex direction (squareIndex + direction) list)
                                 [0 .. NumDir piece - 1])
                         (pList_squares board piece))
                 (Loop_pieces LoopSlidePce (LoopSlideIndex sd)) list
      in fold (\<lambda>piece.
                 fold (\<lambda>squareIndex.
                         fold (\<lambda>index list. Gen_nonslide board sd squareIndex (PceDir piece index) list)
                              [0 .. NumDir piece - 1])
                      (pList_squares board piece))
              (Loop_pieces LoopNonSlidePce (LoopNonSlideIndex sd)) list)"

section \<open>Move text (\<^verbatim>\<open>moves_io.c\<close>)\<close>





section \<open>Draw detection (\<^verbatim>\<open>protocols_xboard.c\<close>, \<^verbatim>\<open>search_algorithm.c\<close>)\<close>







text \<open>
  The head of \<^verbatim>\<open>Quiescence\<close> (lines 103--115) and of \<^verbatim>\<open>AlphaBeta\<close> (lines 173--192).
  \<^verbatim>\<open>CheckUp\<close> reads the clock and the input stream and may set \<^verbatim>\<open>info->stopped\<close>; it is a
  parameter.  What follows the draw test (line 117 on, line 194 on: evaluation, move loop,
  recursive calls) is the parameter \<open>rest\<close>.  A call yields the returned score, the board
  and the search information.  The two float counters of \<^verbatim>\<open>SearchInfo\<close> play no part and
  are left out.
\<close>

record SearchInfo =
  starttime :: int
  stoptime :: int
  depth :: int
  timeset :: int
  movestogo :: int
  nodes :: int
  quit :: int
  stopped :: int
  nullCut :: int
  GAME_MODE :: int
  POST_THINKING :: int




section \<open>Concrete inputs\<close>

text \<open>Zero-filled memory, an allocator that never fails, one that always fails, and a
  board with a 1000-entry transposition table.\<close>

definition zero_entry :: HashEntry where
  "zero_entry = \<lparr>h_posKey = 0, h_move = 0, h_score = 0, h_depth = 0, h_flags = 0\<rparr>"

definition null_table :: HashTable where
  "null_table = \<lparr>pTable = None, numEntries = 0, newWrite = 0, overWrite = 0, hit = 0, cut = 0\<rparr>"

definition zero_board :: ChessBoard where
  "zero_board =
     \<lparr>pieces = (\<lambda>_. 0), pawns = (\<lambda>_. 0), KingSq = (\<lambda>_. 0), side = 0, enPas = 0,
      fiftyMove = 0, ply = 0, hisPly = 0, castlePerm = 0, posKey = 0,
      pieceCount = (\<lambda>_. 0), bigPce = (\<lambda>_. 0), majPce = (\<lambda>_. 0), minPce = (\<lambda>_. 0),
      material = (\<lambda>_. 0),
      history = (\<lambda>_. \<lparr>u_move = 0, u_castlePerm = 0, u_enPas = 0, u_fiftyMove = 0, u_posKey = 0\<rparr>),
      pList = (\<lambda>_ _. 0),
      HashTable = null_table,
      PvArray = (\<lambda>_. 0), searchHistory = (\<lambda>_ _. 0), searchKillers = (\<lambda>_ _. 0),
      capturedWhite = (\<lambda>_. 0), capturedBlack = (\<lambda>_. 0),
      capturedWhiteCount = 0, capturedBlackCount = 0\<rparr>"


definition malloc_never :: "U64 \<Rightarrow> (int \<Rightarrow> HashEntry) option" where
  "malloc_never sz = None"

definition tt_board :: ChessBoard where
  "tt_board = zero_board\<lparr>posKey := 12345, ply := 3,
      HashTable := \<lparr>pTable = Some (\<lambda>_. zero_entry), numEntries = 1000,
                     newWrite = 0, overWrite = 0, hit = 0, cut = 0\<rparr>\<rparr>"

text \<open>\<open>halved k MB\<close> is the budget after \<open>k\<close> halvings \<^verbatim>\<open>MB/2\<close>.\<close>

fun halved :: "nat \<Rightarrow> int \<Rightarrow> int" where
  "halved 0 MB = MB"
| "halved (Suc k) MB = halved k (MB sdiv 2)"


text \<open>A fixed stand-in for the keys \<^verbatim>\<open>Init_HashKeys\<close> draws.\<close>

definition example_keys :: ZobristKeys where
  "example_keys =
     \<lparr>g_pieceKeys = (\<lambda>piece sq. word_of_int (1000 * piece + sq + 1)),
      g_sideKey = 0x5555555555,
      g_castleKeys = (\<lambda>perm. word_of_int (777777 + perm))\<rparr>"

text \<open>
  The position \<^verbatim>\<open>r2r3k/8/8/8/8/8/8/R3K3 w - - 0 1\<close>: white king e1 and rook a1, black
  rooks a8 and d8 and king h8, white to move, as \<^verbatim>\<open>Board_ParseFromFEN\<close> sets it up in
  zero-filled memory.
\<close>

definition ex_mailbox :: "int \<Rightarrow> int" where
  "ex_mailbox =
     (\<lambda>i. if on_board120 i then EMPTY else if 0 \<le> i \<and> i \<le> 119 then OFFBOARD else 0)
       (91 := PIECE_TYPE_BLACK_ROOK, 94 := PIECE_TYPE_BLACK_ROOK, 98 := PIECE_TYPE_BLACK_KING,
        21 := PIECE_TYPE_WHITE_ROOK, 25 := PIECE_TYPE_WHITE_KING)"

definition ex_board :: ChessBoard where
  "ex_board =
     zero_board
       \<lparr>pieces := ex_mailbox,
        KingSq := (\<lambda>_. 0)(COLOR_TYPE_WHITE := 25, COLOR_TYPE_BLACK := 98),
        side := COLOR_TYPE_WHITE, enPas := NO_SQ,
        posKey := 366504492056,
        pieceCount := (\<lambda>_. 0)(PIECE_TYPE_WHITE_ROOK := 1, PIECE_TYPE_WHITE_KING := 1,
                                 PIECE_TYPE_BLACK_ROOK := 2, PIECE_TYPE_BLACK_KING := 1),
        bigPce := (\<lambda>_. 0)(COLOR_TYPE_WHITE := 2, COLOR_TYPE_BLACK := 3),
        majPce := (\<lambda>_. 0)(COLOR_TYPE_WHITE := 2, COLOR_TYPE_BLACK := 3),
        material := (\<lambda>_. 0)(COLOR_TYPE_WHITE := 50550, COLOR_TYPE_BLACK := 51100),
        pList := (\<lambda>_ _. 0)(PIECE_TYPE_WHITE_ROOK := (\<lambda>_. 0)(0 := 21),
                              PIECE_TYPE_WHITE_KING := (\<lambda>_. 0)(0 := 25),
                              PIECE_TYPE_BLACK_ROOK := (\<lambda>_. 0)(0 := 91, 1 := 94),
                              PIECE_TYPE_BLACK_KING := (\<lambda>_. 0)(0 := 98))\<rparr>"









section \<open>Auxiliary facts: board geometry, set-up, primitive updates\<close>

lemma sq120_decomp:
  fixes a b :: int
  assumes "0 \<le> a" "a \<le> 7"
  shows "(21 + a + 10 * b) mod 10 = a + 1" "(21 + a + 10 * b) div 10 = b + 2"
proof -
  have e: "21 + a + 10 * b = (a + 1) + 10 * (b + 2)" by simp
  have m: "((a + 1) + 10 * (b + 2)) mod 10 = (a + 1) mod 10" by (rule mod_mult_self2)
  have d: "((a + 1) + 10 * (b + 2)) div 10 = (b + 2) + (a + 1) div 10" by (rule div_mult_self2) simp
  have m1: "(a + 1) mod 10 = a + 1" using assms by (intro mod_pos_pos_trivial) auto
  have d1: "(a + 1) div 10 = 0" using assms by (intro div_pos_pos_trivial) auto
  show "(21 + a + 10 * b) mod 10 = a + 1" using e m m1 by presburger
  show "(21 + a + 10 * b) div 10 = b + 2" using e d d1 by presburger
qed

lemma on_board120_iff:
  "on_board120 j \<longleftrightarrow> (\<exists>a b. 0 \<le> a \<and> a \<le> 7 \<and> 0 \<le> b \<and> b \<le> 7 \<and> j = 21 + a + 10 * b)"
proof
  assume "on_board120 j"
  then have "0 \<le> j mod 10 - 1 \<and> j mod 10 - 1 \<le> 7 \<and> 0 \<le> j div 10 - 2 \<and> j div 10 - 2 \<le> 7
      \<and> j = 21 + (j mod 10 - 1) + 10 * (j div 10 - 2)"
    unfolding on_board120_def by (simp add: algebra_simps) linarith
  then show "\<exists>a b. 0 \<le> a \<and> a \<le> 7 \<and> 0 \<le> b \<and> b \<le> 7 \<and> j = 21 + a + 10 * b" by blast
next
  assume "\<exists>a b. 0 \<le> a \<and> a \<le> 7 \<and> 0 \<le> b \<and> b \<le> 7 \<and> j = 21 + a + 10 * b"
  then obtain a b where ab: "0 \<le> a" "a \<le> 7" "0 \<le> b" "b \<le> 7" "j = 21 + a + 10 * b" by blast
  show "on_board120 j"
    unfolding on_board120_def ab(5) sq120_decomp [OF ab(1,2)] using ab(1-4) by simp
qed


lemma fold_fun_upd_const:
  "fold (\<lambda>i p. p(g i := c)) xs p = (\<lambda>j. if j \<in> g ` set xs then c else p j)"
  by (induction xs arbitrary: p) (auto simp: fun_eq_iff)

lemma sq64_decomp:
  fixes a b :: int
  assumes "0 \<le> a" "a \<le> 7"
  shows "(a + 8 * b) mod 8 = a" "(a + 8 * b) div 8 = b"
proof -
  have m: "(a + 8 * b) mod 8 = a mod 8" by (rule mod_mult_self2)
  have d: "(a + 8 * b) div 8 = b + a div 8" by (rule div_mult_self2) simp
  have m1: "a mod 8 = a" using assms by (intro mod_pos_pos_trivial) auto
  have d1: "a div 8 = 0" using assms by (intro div_pos_pos_trivial) auto
  show "(a + 8 * b) mod 8 = a" using m m1 by simp
  show "(a + 8 * b) div 8 = b" using d d1 by simp
qed

lemma on_board120_image: "j \<in> SQUARE_64_TO_120 ` {0..63} \<longleftrightarrow> on_board120 j"
proof
  assume "j \<in> SQUARE_64_TO_120 ` {0..63}"
  then obtain i where i: "0 \<le> i" "i \<le> 63" "j = 21 + i mod 8 + 10 * (i div 8)"
    by (auto simp: SQUARE_64_TO_120_def g_square64To120_def)
  have "0 \<le> i mod 8" "i mod 8 \<le> 7" "0 \<le> i div 8" "i div 8 \<le> 7"
    using i(1,2) by (simp_all add: pos_imp_zdiv_nonneg_iff)
  with i(3) show "on_board120 j" unfolding on_board120_iff by blast
next
  assume "on_board120 j"
  then obtain a b where ab: "0 \<le> a" "a \<le> 7" "0 \<le> b" "b \<le> 7" "j = 21 + a + 10 * b"
    unfolding on_board120_iff by blast
  have "0 \<le> a + 8 * b" "a + 8 * b \<le> 63" using ab by simp_all
  moreover have "j = SQUARE_64_TO_120 (a + 8 * b)"
    unfolding SQUARE_64_TO_120_def g_square64To120_def sq64_decomp [OF ab(1,2)] ab(5) by simp
  ultimately show "j \<in> SQUARE_64_TO_120 ` {0..63}" by (metis atLeastAtMost_iff imageI)
qed

lemma Board_Reset_mailbox_eq:
  "Board_Reset_mailbox p =
     (\<lambda>i. if on_board120 i then EMPTY else if 0 \<le> i \<and> i \<le> 119 then OFFBOARD else p i)"
proof -
  have 1: "\<And>p. fold (\<lambda>index p. p(index := OFFBOARD)) [0 .. 119] p = (\<lambda>j. if 0 \<le> j \<and> j \<le> 119 then OFFBOARD else p j)"
    using fold_fun_upd_const [where g = "\<lambda>i. i" and c = OFFBOARD and xs = "[0..119]"] by (simp del: upto_rec_numeral)
  have 2: "\<And>p. fold (\<lambda>index p. p(SQUARE_64_TO_120 index := EMPTY)) [0 .. 63] p = (\<lambda>j. if on_board120 j then EMPTY else p j)"
    using fold_fun_upd_const [where g = SQUARE_64_TO_120 and c = EMPTY and xs = "[0..63]"] on_board120_image
    by (simp del: upto_rec_numeral)
  show ?thesis unfolding Board_Reset_mailbox_def 1 2 by (auto simp: fun_eq_iff)
qed


lemma upto_small:
  "[0..1] = [0, 1::int]" "[0..2] = [0, 1, 2::int]"
  "[0..12] = [0, 1, 2, 3, 4, 5, 6, 7, 8, 9, 10, 11, 12::int]"
  "[0..15] = [0, 1, 2, 3, 4, 5, 6, 7, 8, 9, 10, 11, 12, 13, 14, 15::int]"
  by (simp_all add: upto.simps)

lemma Board_Reset_eq:
  "Board_Reset b =
     b\<lparr>pieces := Board_Reset_mailbox (pieces b),
       bigPce := (bigPce b)(0 := 0, 1 := 0), majPce := (majPce b)(0 := 0, 1 := 0),
       minPce := (minPce b)(0 := 0, 1 := 0), material := (material b)(0 := 0, 1 := 0),
       pawns := (pawns b)(0 := 0, 1 := 0, 2 := 0),
       pieceCount := fold (\<lambda>index p. p(index := 0)) [0, 1, 2, 3, 4, 5, 6, 7, 8, 9, 10, 11, 12] (pieceCount b),
       KingSq := (KingSq b)(1 := NO_SQ, 0 := NO_SQ),
       side := COLOR_TYPE_BOTH, enPas := NO_SQ, fiftyMove := 0, ply := 0, hisPly := 0,
       castlePerm := 0, posKey := 0, capturedWhiteCount := 0, capturedBlackCount := 0,
       capturedWhite := fold (\<lambda>index p. p(index := 0)) [0, 1, 2, 3, 4, 5, 6, 7, 8, 9, 10, 11, 12, 13, 14, 15] (capturedWhite b),
       capturedBlack := fold (\<lambda>index p. p(index := 0)) [0, 1, 2, 3, 4, 5, 6, 7, 8, 9, 10, 11, 12, 13, 14, 15] (capturedBlack b)\<rparr>"
  unfolding Board_Reset_def Let_def upto_small by simp


lemma upto_rec_01:
  "[0..numeral n] = 0 # [1..numeral n]"
  "[1..numeral n] = 1 # [2..numeral n]"
  by (simp_all add: upto.simps)

lemma ex_parsed:
  "Board_ParseFromFEN example_keys ''r2r3k/8/8/8/8/8/8/R3K3 w - - 0 1'' zero_board = Some (0, ex_board)"
  apply (simp add: Board_ParseFromFEN_def Board_Reset_eq Board_Reset_mailbox_eq Let_def FEN_char_def FEN_piece_def
        SQUARE_64_TO_120_def g_square64To120_def c_at_def FEN_castle_char_def eval_nat_numeral
        cong: option.case_cong_weak fen_char.case_cong_weak placement.case_cong_weak)
  apply (simp add: Board_UpdateListsMaterial_def Board_UpdateListsMaterial_square_def Let_def zero_board_def null_table_def on_board120_def
      PieceBig_def PieceMaj_def PieceMin_def g_pieceCol_def g_pieceVal_def Board_GeneratePositionKey_def PositionKey_square_def example_keys_def upto_rec_01)
  apply (simp add: ex_board_def ex_mailbox_def zero_board_def null_table_def on_board120_def)
  apply (auto simp: fun_eq_iff zero_board_def)
  done






lemmas eval_tables = PieceBig_def PieceMaj_def PieceMin_def g_pieceVal_def g_pieceCol_def g_piecePawn_def
  g_pieceKnight_def g_pieceKing_def g_pieceRookQueen_def g_pieceBishopQueen_def CastlePerm_def
  KnDir_def RkDir_def BiDir_def KiDir_def
  MOVE_GET_FROM_SQUARE_def MOVE_GET_TO_SQUARE_def MOVE_GET_CAPTURED_def MOVE_GET_PROMOTED_def
  MFLAGEP_def MFLAGPS_def MFLAGCA_def MOVE_def
  SQUARE_120_TO_64_def g_square120To64_def on_board120_def
  BITBOARD_CLEAR_BIT_def BITBOARD_SET_BIT_def g_bitSetMask_def g_bitClearMask_def




section \<open>Transposition table: properties\<close>

lemma HashTable_Init_attempts:
  assumes "HashTable_Init malloc esz table MB = Some t'"
  shows "\<exists>k. numEntries t' = 0x100000 * halved k MB div int esz - 2
           \<and> malloc (word_of_int (0x100000 * halved k MB div int esz - 2) * word_of_nat esz) \<noteq> None
           \<and> (\<forall>j<k. malloc (word_of_int (0x100000 * halved j MB div int esz - 2) * word_of_nat esz) = None)"
proof (rule HashTable_Init.raw_induct
         [where P = "\<lambda>malloc esz table MB t'. \<exists>k. numEntries t' = 0x100000 * halved k MB div int esz - 2
           \<and> malloc (word_of_int (0x100000 * halved k MB div int esz - 2) * word_of_nat esz) \<noteq> None
           \<and> (\<forall>j<k. malloc (word_of_int (0x100000 * halved j MB div int esz - 2) * word_of_nat esz) = None)",
          OF _ assms])
  fix f :: "(U64 \<Rightarrow> (int \<Rightarrow> HashEntry) option) \<Rightarrow> nat \<Rightarrow> HashTable \<Rightarrow> int \<Rightarrow> HashTable option"
    and malloc :: "U64 \<Rightarrow> (int \<Rightarrow> HashEntry) option" and esz :: nat and table :: HashTable
    and MB :: int and t' :: HashTable
  let ?req = "\<lambda>k MB. malloc (word_of_int (0x100000 * halved k MB div int esz - 2) * word_of_nat esz)"
  assume IH: "\<And>malloc esz table MB t'. f malloc esz table MB = Some t' \<Longrightarrow>
     \<exists>k. numEntries t' = 0x100000 * halved k MB div int esz - 2
           \<and> malloc (word_of_int (0x100000 * halved k MB div int esz - 2) * word_of_nat esz) \<noteq> None
           \<and> (\<forall>j<k. malloc (word_of_int (0x100000 * halved j MB div int esz - 2) * word_of_nat esz) = None)"
  assume eq: "(let HashSize = 0x100000 * MB;
          table = table\<lparr>numEntries := HashSize div int esz\<rparr>;
          table = table\<lparr>numEntries := numEntries table - 2\<rparr>;
          table = table\<lparr>pTable := malloc (word_of_int (numEntries table) * word_of_nat esz)\<rparr>
      in if pTable table = None
         then f malloc esz table (MB sdiv 2)
         else Some (HashTable_Clear table)) = Some t'"
  show "\<exists>k. numEntries t' = 0x100000 * halved k MB div int esz - 2
           \<and> ?req k MB \<noteq> None \<and> (\<forall>j<k. ?req j MB = None)"
  proof (cases "?req 0 MB")
    case None
    with eq have "f malloc esz (table\<lparr>numEntries := 0x100000 * MB div int esz - 2, pTable := None\<rparr>)
                    (MB sdiv 2) = Some t'"
      by (simp add: Let_def)
    from IH [OF this] obtain k where k: "numEntries t' = 0x100000 * halved k (MB sdiv 2) div int esz - 2"
      "?req k (MB sdiv 2) \<noteq> None" "\<forall>j<k. ?req j (MB sdiv 2) = None" by blast
    have "\<forall>j<Suc k. ?req j MB = None"
    proof (intro allI impI)
      fix j assume "j < Suc k"
      then show "?req j MB = None" using None k(3) by (cases j) auto
    qed
    with k(1,2) show ?thesis by (intro exI [of _ "Suc k"]) simp
  next
    case (Some blk)
    with eq have "numEntries t' = 0x100000 * MB div int esz - 2"
      by (auto simp: Let_def HashTable_Clear_def)
    with Some show ?thesis by (intro exI [of _ 0]) simp
  qed
qed

lemma HashTable_Init_needs_malloc:
  assumes "HashTable_Init malloc esz table MB = Some t'"
  shows "\<exists>sz. malloc sz \<noteq> None"
  using HashTable_Init_attempts [OF assms] by blast





text \<open>
  Claim C8 fails on the code: the recursion of \<^verbatim>\<open>HashTable_Init\<close> has no floor.  When
  every allocation fails, the budget is halved down to 0 and the function calls itself
  with 0 for ever; it returns for no starting size.
\<close>

theorem HashTable_Init_never_returns:
  "HashTable_Init malloc_never esz table MB = None"
proof (cases "HashTable_Init malloc_never esz table MB")
  case None
  then show ?thesis .
next
  case (Some t')
  from HashTable_Init_needs_malloc [OF this] show ?thesis by (simp add: malloc_never_def)
qed

text \<open>
  Claim C4.  After \<^verbatim>\<open>HashTable_StoreEntry\<close> has stored score \<open>s\<close> with flag \<open>fl\<close> at
  depth \<open>D\<close> for the position of \<open>b\<close>, take any board \<open>b2\<close> with the same position key and
  the same ply (\<open>\<ge> 0\<close>, as the source asserts) whose table still holds that slot.  If the
  flag was exact and the requested depth is at most \<open>D\<close>, the probe signals the entry usable
  and returns exactly \<open>s\<close> (and the stored move), for every window.  If the flag was the
  lower bound, the probe signals the entry usable only when \<open>s \<ge> beta\<close>.
\<close>

theorem HashTable_store_probe:
  assumes st: "HashTable_StoreEntry b mv s fl D = Some b1"
    and tab1: "pTable (HashTable b1) = Some tab1"
    and tab2: "pTable (HashTable b2) = Some tab2"
    and n: "numEntries (HashTable b2) = numEntries (HashTable b1)"
    and key: "posKey b2 = posKey b"
    and ply: "ply b2 = ply b" "0 \<le> ply b"
    and slot: "tab2 (uint (posKey b) mod numEntries (HashTable b1)) =
               tab1 (uint (posKey b) mod numEntries (HashTable b1))"
  shows "(fl = HFEXACT \<and> d \<le> D \<longrightarrow>
            (\<exists>b3. HashTable_ProbeEntry b2 mv0 sc0 alpha beta d = Some (BOOL_TYPE_TRUE, mv, s, b3)))
       \<and> (fl = HFBETA \<longrightarrow>
            (\<forall>mv' sc' b3. HashTable_ProbeEntry b2 mv0 sc0 alpha beta d = Some (BOOL_TYPE_TRUE, mv', sc', b3)
                \<longrightarrow> beta \<le> s))"
proof -
  obtain tab where tab: "pTable (HashTable b) = Some tab" and pos: "0 < numEntries (HashTable b)"
    using st by (auto simp: HashTable_StoreEntry_def split: option.splits if_splits)
  let ?i = "uint (posKey b) mod numEntries (HashTable b)"
  let ?s = "if s > CHESS_IS_MATE then s + ply b else if s < - CHESS_IS_MATE then s - ply b else s"
  have b1: "numEntries (HashTable b1) = numEntries (HashTable b)"
    and e1: "tab1 ?i = \<lparr>h_posKey = posKey b, h_move = mv, h_score = ?s, h_depth = D, h_flags = fl\<rparr>"
    using st tab pos tab1 by (auto simp: HashTable_StoreEntry_def Let_def)
  have e2: "tab2 ?i = \<lparr>h_posKey = posKey b, h_move = mv, h_score = ?s, h_depth = D, h_flags = fl\<rparr>"
    using slot e1 b1 by simp
  have adj: "(if ?s > CHESS_IS_MATE then ?s - ply b
              else if ?s < - CHESS_IS_MATE then ?s + ply b else ?s) = s"
    using ply(2) by auto
  show ?thesis
    using tab2 n b1 pos key ply(1) e2 adj
    by (auto simp: HashTable_ProbeEntry_def Let_def split: if_splits)
qed

theorem HashTable_store_probe_witness:
  "(\<exists>b1 b3. HashTable_StoreEntry tt_board 77 29990 HFEXACT 5 = Some b1 \<and> 0 \<le> ply tt_board \<and> (4::int) \<le> 5
        \<and> HashTable_ProbeEntry b1 0 0 (-10) 10 4 = Some (BOOL_TYPE_TRUE, 77, 29990, b3))
   \<and> (\<exists>b1 b3. HashTable_StoreEntry tt_board 77 50 HFBETA 5 = Some b1
        \<and> HashTable_ProbeEntry b1 0 0 20 40 4 = Some (BOOL_TYPE_TRUE, 77, 40, b3) \<and> (40::int) \<le> 50)"
proof -
  note defs = HashTable_StoreEntry_def HashTable_ProbeEntry_def tt_board_def zero_board_def
    zero_entry_def Let_def
  define b1 where "b1 = the (HashTable_StoreEntry tt_board 77 29990 HFEXACT 5)"
  define t1 where "t1 = the (pTable (HashTable b1))"
  have s1: "HashTable_StoreEntry tt_board 77 29990 HFEXACT 5 = Some b1"
    unfolding b1_def by (simp add: defs)
  have tb1: "pTable (HashTable b1) = Some t1"
    unfolding t1_def b1_def by (simp add: defs)
  have p1: "posKey b1 = posKey tt_board" "ply b1 = ply tt_board" "0 \<le> ply tt_board"
    unfolding b1_def by (simp_all add: defs)
  have A: "\<exists>b3. HashTable_ProbeEntry b1 0 0 (-10) 10 4 = Some (BOOL_TYPE_TRUE, 77, 29990, b3)"
    using HashTable_store_probe [OF s1 tb1 tb1 refl p1 refl, of 4 0 0 "-10" 10] by simp
  define b2 where "b2 = the (HashTable_StoreEntry tt_board 77 50 HFBETA 5)"
  define t2 where "t2 = the (pTable (HashTable b2))"
  define b3 where "b3 = b2\<lparr>HashTable := (HashTable b2)\<lparr>hit := hit (HashTable b2) + 1\<rparr>\<rparr>"
  have s2: "HashTable_StoreEntry tt_board 77 50 HFBETA 5 = Some b2"
    unfolding b2_def by (simp add: defs)
  have tb2: "pTable (HashTable b2) = Some t2"
    unfolding t2_def b2_def by (simp add: defs)
  have p2: "posKey b2 = posKey tt_board" "ply b2 = ply tt_board"
    unfolding b2_def by (simp_all add: defs)
  have pr: "HashTable_ProbeEntry b2 0 0 20 40 4 = Some (BOOL_TYPE_TRUE, 77, 40, b3)"
    unfolding b3_def b2_def by (simp add: defs)
  have B: "(40::int) \<le> 50"
    using HashTable_store_probe [OF s2 tb2 tb2 refl p2 p1(3) refl, of 4 0 0 20 40] pr by simp
  show ?thesis using s1 p1(3) A s2 pr B by auto
qed

section \<open>Draw detection, move text and position set-up: properties\<close>

















lemmas eval_gen = Move_GenerateAll_def Let_def pList_squares_def
     Loop_pieces_def LoopSlidePce_def LoopNonSlidePce_def LoopSlideIndex_def LoopNonSlideIndex_def
     Gen_white_castle_def Gen_black_castle_def Gen_white_pawn_def Gen_black_pawn_def
     NumDir_def PceDir_def upto_rec_01 Gen_nonslide_def Gen_slide_hit_def Gen_slide.simps
     SQOFFBOARD_def g_filesBoard_def g_ranksBoard_def AddQuietMove_def AddCaptureMove_def AddEnPassantMove_def
     AddWhitePawnCapMove_def AddWhitePawnMove_def AddBlackPawnCapMove_def AddBlackPawnMove_def
     MvvLvaScores_def VictimScore_def

lemma ex_moves: "map m_move (Move_GenerateAll ex_board) =
   [2837, 2965, 3093, 3989, 5269, 6549, 7829, 9109, 10389, 175509, 3097, 3353, 4505, 4633, 4377]"
  by (simp add: eval_gen eval_tables ex_board_def ex_mailbox_def zero_board_def null_table_def
      split del: if_split cong: let_weak_cong)








end
